theory Spec2Isabelle
  imports Main "HOL-Library.Sublist"
begin

section \<open>Text and character classes\<close>

text \<open>
  Model text is \<open>string\<close>: one \<open>char\<close> per code point, so the texts covered are
  those whose code points lie below 256. The pattern of \<open>extract_tool_calls\<close> is a
  \<open>str\<close> pattern, so its classes \<^verbatim>\<open>\s\<close> and \<^verbatim>\<open>\w\<close> are the Unicode ones; on
  the code points below 256 they are the following sets.
\<close>

definition is_space :: "char \<Rightarrow> bool" where
  \<comment> \<open>\<^verbatim>\<open>\s\<close>: TAB..CR, FS..US, space, NEL (0x85), NBSP (0xA0).\<close>
  "is_space c \<longleftrightarrow>
     (let n = (of_char c :: nat)
      in (9 \<le> n \<and> n \<le> 13) \<or> (28 \<le> n \<and> n \<le> 32) \<or> n = 133 \<or> n = 160)"

definition is_word :: "char \<Rightarrow> bool" where
  \<comment> \<open>\<^verbatim>\<open>\w\<close>: alphanumeric code points and the underscore (95).\<close>
  "is_word c \<longleftrightarrow>
     (let n = (of_char c :: nat)
      in (48 \<le> n \<and> n \<le> 57) \<or> (65 \<le> n \<and> n \<le> 90) \<or> n = 95 \<or> (97 \<le> n \<and> n \<le> 122)
         \<or> n = 170 \<or> (178 \<le> n \<and> n \<le> 179) \<or> n = 181 \<or> (185 \<le> n \<and> n \<le> 186)
         \<or> (188 \<le> n \<and> n \<le> 190) \<or> (192 \<le> n \<and> n \<le> 214) \<or> (216 \<le> n \<and> n \<le> 246)
         \<or> (248 \<le> n \<and> n \<le> 255))"

section \<open>Response scanner\<close>

text \<open>
  \<^verbatim>\<open>pattern = r'\[TOOL:\s*(\w+)\]'\<close>, \<^verbatim>\<open>re.findall(pattern, response)\<close>.

  \<open>strip_prefix\<close> matches a literal at the head of the text. \<open>match_marker\<close> tries the
  pattern at the head of the text, piece by piece: the literal \<^verbatim>\<open>[TOOL:\<close>, the greedy
  \<^verbatim>\<open>\s*\<close>, the greedy group \<^verbatim>\<open>(\w+)\<close>, the literal \<^verbatim>\<open>]\<close>; it returns the group and the
  text after the match. \<open>findall_marker\<close> is the scan of \<^verbatim>\<open>re.findall\<close>: at each
  position the pattern is tried; after a match the scan resumes behind it, otherwise
  one character further.
\<close>

fun strip_prefix :: "string \<Rightarrow> string \<Rightarrow> string option" where
  "strip_prefix [] s = Some s"
| "strip_prefix (p # ps) [] = None"
| "strip_prefix (p # ps) (c # cs) = (if p = c then strip_prefix ps cs else None)"

definition match_marker :: "string \<Rightarrow> (string \<times> string) option" where
  "match_marker s =
     (case strip_prefix ''[TOOL:'' s of
        None \<Rightarrow> None
      | Some r \<Rightarrow>
          (let r1 = dropWhile is_space r;
               name = takeWhile is_word r1
           in case dropWhile is_word r1 of
                [] \<Rightarrow> None
              | c # rest \<Rightarrow> if name \<noteq> [] \<and> c = CHR '']'' then Some (name, rest) else None))"

function findall_marker :: "string \<Rightarrow> string list" where
  "findall_marker [] = []"
| "findall_marker (c # cs) =
     (case match_marker (c # cs) of
        Some (name, rest) \<Rightarrow> name # findall_marker rest
      | None \<Rightarrow> findall_marker cs)"
  by pat_completeness auto
termination
proof (relation "measure length")
  show "wf (measure length)"
    by simp
next
  fix c cs
  show "(cs, c # cs) \<in> measure length"
    by simp
next
  fix c cs x2 name rest
  assume a: "match_marker (c # cs) = Some x2" "(name, rest) = x2"
  have sp: "length r \<le> length s" if "strip_prefix p s = Some r" for p s r
    using that by (induction p s rule: strip_prefix.induct) (auto split: if_splits)
  from a obtain r where r: "strip_prefix ''[TOOL:'' (c # cs) = Some r"
    and d: "dropWhile is_word (dropWhile is_space r) = CHR '']'' # rest"
    by (auto simp: match_marker_def Let_def split: option.splits list.splits if_splits)
  have "length rest < length (dropWhile is_word (dropWhile is_space r))"
    using d by simp
  also have "\<dots> \<le> length r"
    by (meson length_dropWhile_le le_trans)
  also have "\<dots> \<le> length (c # cs)"
    using r by (rule sp)
  finally show "(rest, c # cs) \<in> measure length"
    by simp
qed

definition extract_tool_calls :: "string \<Rightarrow> string list" where
  "extract_tool_calls response = findall_marker response"

section \<open>Conversation data, exceptions and the collaborators\<close>

text \<open>
  A turn is the dictionary \<^verbatim>\<open>{"role": ..., "content": ...}\<close>; the three role strings
  \<^verbatim>\<open>"system"\<close>, \<^verbatim>\<open>"user"\<close>, \<^verbatim>\<open>"assistant"\<close> are the constructors of \<open>role\<close>.
\<close>

datatype role = System | User | Assistant

record turn =
  role :: role
  content :: string

text \<open>
  A raised exception is a value. \<open>Exception msg\<close> stands for an instance of
  \<^verbatim>\<open>Exception\<close> (or of a subclass) with \<^verbatim>\<open>str(e) = msg\<close>: what \<^verbatim>\<open>except Exception\<close>
  catches. \<open>BaseException msg\<close> stands for an instance of \<^verbatim>\<open>BaseException\<close> outside
  \<^verbatim>\<open>Exception\<close> (\<^verbatim>\<open>KeyboardInterrupt\<close>, \<^verbatim>\<open>SystemExit\<close>), which that clause lets through.
\<close>

datatype exn = Exception string | BaseException string

text \<open>
  An entry of the registry: \<^verbatim>\<open>{"function": ..., "description": ...}\<close>. The collectors
  read the machine through \<^verbatim>\<open>psutil\<close>, \<^verbatim>\<open>platform\<close> and \<^verbatim>\<open>socket\<close>: a call takes the
  state \<open>'w\<close> of the outside world and returns a structured result \<open>'r\<close> or raises,
  and leaves the world in a new state.
\<close>

record ('w, 'r) tool_info =
  func :: "'w \<Rightarrow> (exn + 'r) \<times> 'w"
  description :: string

text \<open>
  The collaborators of \<^verbatim>\<open>chat.py\<close>, as parameters: the registry \<^verbatim>\<open>TOOLS\<close> (a dictionary,
  here its items in insertion order), \<^verbatim>\<open>ollama.chat(model=..., messages=...)\<close> followed
  by \<^verbatim>\<open>response["message"]["content"]\<close>, \<^verbatim>\<open>json.dumps(result, indent=2)\<close>, and
  \<^verbatim>\<open>console.print\<close>, which writes a line to the terminal or raises (an encoding error
  of the output stream, an interrupt).
\<close>

datatype console_line = Running string

record ('w, 'r) env =
  tools :: "(string \<times> ('w, 'r) tool_info) list"
  ollama_chat :: "string \<Rightarrow> turn list \<Rightarrow> 'w \<Rightarrow> (exn + string) \<times> 'w"
  json_dumps :: "'r \<Rightarrow> exn + string"
  console_print :: "console_line \<Rightarrow> 'w \<Rightarrow> (exn + unit) \<times> 'w"

text \<open>
  The registry of \<^verbatim>\<open>system_tools.py\<close>, in the order of the dictionary display;
  \<open>collect name\<close> is the collector function of that name.
\<close>

definition TOOLS :: "(string \<Rightarrow> 'w \<Rightarrow> (exn + 'r) \<times> 'w) \<Rightarrow> (string \<times> ('w, 'r) tool_info) list" where
  "TOOLS collect =
     [(''get_system_info'',
         \<lparr>func = collect ''get_system_info'',
          description = ''Get basic system information like OS, hostname, and processor''\<rparr>),
      (''get_cpu_info'',
         \<lparr>func = collect ''get_cpu_info'',
          description = ''Get CPU usage, core count, and frequency information''\<rparr>),
      (''get_memory_info'',
         \<lparr>func = collect ''get_memory_info'',
          description = ''Get RAM and swap memory usage''\<rparr>),
      (''get_disk_info'',
         \<lparr>func = collect ''get_disk_info'',
          description = ''Get disk partition and storage usage information''\<rparr>),
      (''get_network_info'',
         \<lparr>func = collect ''get_network_info'',
          description = ''Get network interfaces, IP addresses, and data transfer stats''\<rparr>),
      (''get_process_info'',
         \<lparr>func = collect ''get_process_info'',
          description = ''Get top processes by memory usage''\<rparr>),
      (''get_battery_info'',
         \<lparr>func = collect ''get_battery_info'',
          description = ''Get battery status and charge level (for laptops)''\<rparr>),
      (''get_uptime'',
         \<lparr>func = collect ''get_uptime'',
          description = ''Get system boot time and uptime duration''\<rparr>)]"

text \<open>
  The state a call of \<^verbatim>\<open>chat\<close> works on: the \<^verbatim>\<open>history\<close> list it mutates in place, the
  outside world, and two logs of what it did to its collaborators: the \<^verbatim>\<open>messages\<close>
  argument of every \<^verbatim>\<open>ollama.chat\<close> call, and the lines \<^verbatim>\<open>console.print\<close> has
  written (\<open>Running name\<close> is the line announcing the tool \<open>name\<close>; its markup is left
  out).
\<close>

record 'w session =
  history :: "turn list"
  world :: 'w
  requests :: "turn list list"
  console :: "console_line list"

section \<open>System prompt\<close>

definition MODEL :: string where
  "MODEL = ''llama3.2''"

fun join :: "string \<Rightarrow> string list \<Rightarrow> string" where
  \<comment> \<open>\<^verbatim>\<open>sep.join(xs)\<close>\<close>
  "join sep [] = []"
| "join sep [x] = x"
| "join sep (x # y # ys) = x @ sep @ join sep (y # ys)"

definition format_tool_descriptions :: "(string \<times> ('w, 'r) tool_info) list \<Rightarrow> string" where
  "format_tool_descriptions registry =
     join ''\<newline>'' (map (\<lambda>(name, info). ''- '' @ name @ '': '' @ description info) registry)"

definition SYSTEM_PROMPT_head :: string where
  \<comment> \<open>the template up to \<^verbatim>\<open>{tools}\<close>\<close>
  "SYSTEM_PROMPT_head =
     ''You are a helpful assistant that runs locally on the user's machine. \<newline>''
      @ ''You have access to tools that can retrieve information about the system you're running on.\<newline>''
      @ ''\<newline>''
      @ ''Available tools:\<newline>''"

definition SYSTEM_PROMPT_tail :: string where
  \<comment> \<open>the template after \<^verbatim>\<open>{tools}\<close>\<close>
  "SYSTEM_PROMPT_tail =
     ''\<newline>''
      @ ''\<newline>''
      @ ''When the user asks about system information, use the appropriate tool by responding with:\<newline>''
      @ ''[TOOL: tool_name]\<newline>''
      @ ''\<newline>''
      @ ''For example:\<newline>''
      @ ''- If asked about CPU usage, respond with [TOOL: get_cpu_info]\<newline>''
      @ ''- If asked about memory/RAM, respond with [TOOL: get_memory_info]\<newline>''
      @ ''- If asked about disk space, respond with [TOOL: get_disk_info]\<newline>''
      @ ''- If asked about network, respond with [TOOL: get_network_info]\<newline>''
      @ ''- If asked about running processes, respond with [TOOL: get_process_info]\<newline>''
      @ ''- If asked about battery, respond with [TOOL: get_battery_info]\<newline>''
      @ ''- If asked about uptime or boot time, respond with [TOOL: get_uptime]\<newline>''
      @ ''- If asked about general system info (OS, hostname), respond with [TOOL: get_system_info]\<newline>''
      @ ''\<newline>''
      @ ''After receiving tool results, explain them to the user in a friendly, clear way.\<newline>''
      @ ''You can use multiple tools if needed to answer complex questions.\<newline>''"

definition SYSTEM_PROMPT_format :: "string \<Rightarrow> string" where
  \<comment> \<open>\<^verbatim>\<open>SYSTEM_PROMPT.format(tools=...)\<close>\<close>
  "SYSTEM_PROMPT_format tools_text = SYSTEM_PROMPT_head @ tools_text @ SYSTEM_PROMPT_tail"

definition system_turn :: "('w, 'r) env \<Rightarrow> turn" where
  "system_turn env =
     \<lparr>role = System, content = SYSTEM_PROMPT_format (format_tool_descriptions (tools env))\<rparr>"

section \<open>Tool dispatcher\<close>

definition execute_tool :: "('w, 'r) env \<Rightarrow> string \<Rightarrow> 'w \<Rightarrow> (exn + string) \<times> 'w" where
  "execute_tool env tool_name w =
     (case map_of (tools env) tool_name of
        Some info \<Rightarrow>
          (let tried =
                 (case func info w of
                    (Inl e, w') \<Rightarrow> (Inl e, w')
                  | (Inr result, w') \<Rightarrow> (json_dumps env result, w'))
           in case tried of
                (Inl (Exception msg), w') \<Rightarrow>
                  (Inr (''Error executing '' @ tool_name @ '': '' @ msg), w')
              | (Inl (BaseException msg), w') \<Rightarrow> (Inl (BaseException msg), w')
              | (Inr text, w') \<Rightarrow> (Inr text, w'))
      | None \<Rightarrow> (Inr (''Unknown tool: '' @ tool_name), w))"

section \<open>Conversation orchestrator\<close>

definition backend_call :: "('w, 'r) env \<Rightarrow> 'w session \<Rightarrow> (exn + string) \<times> 'w session" where
  \<comment> \<open>\<^verbatim>\<open>ollama.chat(model=MODEL, messages=[{system turn}, *history])\<close> and the reply's text\<close>
  "backend_call env st =
     (let messages = system_turn env # history st
      in case ollama_chat env MODEL messages (world st) of
           (reply, w') \<Rightarrow> (reply, st\<lparr>world := w', requests := requests st @ [messages]\<rparr>))"

fun tool_loop ::
  "('w, 'r) env \<Rightarrow> string list \<Rightarrow> string list \<Rightarrow> 'w session \<Rightarrow> (exn + string list) \<times> 'w session"
where
  \<comment> \<open>\<^verbatim>\<open>for tool_name in tool_calls: ...\<close>, with \<^verbatim>\<open>tool_results\<close> as the accumulator\<close>
  "tool_loop env [] tool_results st = (Inr tool_results, st)"
| "tool_loop env (tool_name # rest) tool_results st =
     (case console_print env (Running tool_name) (world st) of
        (Inl e, w0) \<Rightarrow> (Inl e, st\<lparr>world := w0\<rparr>)
      | (Inr printed, w0) \<Rightarrow>
          (let st1 = st\<lparr>console := console st @ [Running tool_name], world := w0\<rparr>
           in case execute_tool env tool_name (world st1) of
                (Inl e, w') \<Rightarrow> (Inl e, st1\<lparr>world := w'\<rparr>)
              | (Inr result, w') \<Rightarrow>
                  tool_loop env rest
                    (tool_results @ [''Results from '' @ tool_name @ '':\<newline>'' @ result])
                    (st1\<lparr>world := w'\<rparr>)))"

definition tool_results_message :: "string \<Rightarrow> string" where
  "tool_results_message tool_context =
     ''Here are the tool results:\<newline>\<newline>'' @ tool_context
       @ ''\<newline>\<newline>Please explain these results to me in a friendly, easy-to-understand way.''"

definition chat :: "('w, 'r) env \<Rightarrow> string \<Rightarrow> 'w session \<Rightarrow> (exn + string) \<times> 'w session" where
  "chat env user_message st0 =
     (let st1 = st0\<lparr>history := history st0 @ [\<lparr>role = User, content = user_message\<rparr>]\<rparr>
      in case backend_call env st1 of
           (Inl e, st2) \<Rightarrow> (Inl e, st2)
         | (Inr assistant_message, st2) \<Rightarrow>
             (let tool_calls = extract_tool_calls assistant_message
              in if tool_calls \<noteq> [] then
                   (case tool_loop env tool_calls [] st2 of
                      (Inl e, st3) \<Rightarrow> (Inl e, st3)
                    | (Inr tool_results, st3) \<Rightarrow>
                        (let tool_context = join ''\<newline>\<newline>'' tool_results;
                             st4 = st3\<lparr>history := history st3
                                     @ [\<lparr>role = Assistant, content = assistant_message\<rparr>]\<rparr>;
                             st5 = st4\<lparr>history := history st4
                                     @ [\<lparr>role = User, content = tool_results_message tool_context\<rparr>]\<rparr>
                         in case backend_call env st5 of
                              (Inl e, st6) \<Rightarrow> (Inl e, st6)
                            | (Inr final_message, st6) \<Rightarrow>
                                (Inr final_message,
                                 st6\<lparr>history := history st6
                                       @ [\<lparr>role = Assistant, content = final_message\<rparr>]\<rparr>)))
                 else
                   (Inr assistant_message,
                    st2\<lparr>history := history st2
                          @ [\<lparr>role = Assistant, content = assistant_message\<rparr>]\<rparr>)))"

section \<open>The specification's vocabulary\<close>

text \<open>
  The marker grammar in the specification's words: an opening tag token, the literal word
  TOOL, a colon, optional whitespace, an identifier of word characters only, a closing
  tag token. \<open>well_formed_marker m name\<close>: the text \<open>m\<close> is a marker for \<open>name\<close>.
\<close>

definition well_formed_marker :: "string \<Rightarrow> string \<Rightarrow> bool" where
  "well_formed_marker m name \<longleftrightarrow>
     (\<exists>ws. m = ''['' @ ''TOOL'' @ '':'' @ ws @ name @ '']''
           \<and> list_all is_space ws \<and> name \<noteq> [] \<and> list_all is_word name)"

definition contains_marker :: "string \<Rightarrow> bool" where
  "contains_marker text \<longleftrightarrow> (\<exists>pre m name post. text = pre @ m @ post \<and> well_formed_marker m name)"

text \<open>
  Announcing and dispatching the extracted names one after the other, in extraction
  order, each on the world the one before left: the payloads, or the exception that ends
  the run (one that \<^verbatim>\<open>console.print\<close> raises, or one outside \<^verbatim>\<open>Exception\<close> that a tool
  raises).
\<close>

fun dispatch_in_order :: "('w, 'r) env \<Rightarrow> string list \<Rightarrow> 'w \<Rightarrow> (exn + string list) \<times> 'w" where
  "dispatch_in_order env [] w = (Inr [], w)"
| "dispatch_in_order env (name # names) w =
     (case console_print env (Running name) w of
        (Inl e, w0) \<Rightarrow> (Inl e, w0)
      | (Inr printed, w0) \<Rightarrow>
          (case execute_tool env name w0 of
             (Inl e, w') \<Rightarrow> (Inl e, w')
           | (Inr payload, w') \<Rightarrow>
               (case dispatch_in_order env names w' of
                  (Inl e, w'') \<Rightarrow> (Inl e, w'')
                | (Inr payloads, w'') \<Rightarrow> (Inr (payload # payloads), w''))))"

text \<open>
  A run of the Scanner as a relation between a text and a result, in the specification's
  words: at a position where a well-formed marker starts, the run yields its name and
  goes on behind the marker; at any other position it goes on one character further.
  Nothing in it says how a marker is searched for.
\<close>

inductive scans :: "string \<Rightarrow> string list \<Rightarrow> bool" where
  scans_end: "scans [] []"
| scans_marker: "well_formed_marker m name \<Longrightarrow> scans post names \<Longrightarrow> scans (m @ post) (name # names)"
| scans_skip: "\<not> (\<exists>m name post. c # cs = m @ post \<and> well_formed_marker m name) \<Longrightarrow> scans cs names
     \<Longrightarrow> scans (c # cs) names"

section \<open>A concrete environment\<close>

text \<open>
  An environment to run the definitions on: the world is the number of collector calls
  made so far, a collector returns that number, except the battery collector, which
  raises; the backend answers by the last message it is sent; the serializer writes the
  number in unary between brackets; printing a line succeeds. The reply to \<open>status?\<close>
  asks for a tool that works, a tool that is not registered, a tool that raises, and the
  first tool again.
\<close>

definition example_collect :: "string \<Rightarrow> nat \<Rightarrow> (exn + nat) \<times> nat" where
  "example_collect name w =
     (if name = ''get_battery_info'' then (Inl (Exception ''no battery''), Suc w)
      else (Inr w, Suc w))"

definition example_reply :: string where
  "example_reply =
     ''Checking. [TOOL: get_cpu_info] [TOOL: get_gpu_info] [TOOL: get_battery_info] [TOOL: get_cpu_info]''"

definition example_ollama_chat :: "string \<Rightarrow> turn list \<Rightarrow> nat \<Rightarrow> (exn + string) \<times> nat" where
  "example_ollama_chat model messages w =
     (if content (last messages) = ''status?'' then (Inr example_reply, w)
      else if content (last messages) = ''hi'' then (Inr ''Hello!'', w)
      else (Inr ''All good.'', w))"

definition example_json_dumps :: "nat \<Rightarrow> exn + string" where
  "example_json_dumps n = Inr (''['' @ replicate n (CHR ''1'') @ '']'')"

definition example_console_print :: "console_line \<Rightarrow> nat \<Rightarrow> (exn + unit) \<times> nat" where
  "example_console_print line w = (Inr (), w)"

definition example_env :: "(nat, nat) env" where
  "example_env =
     \<lparr>tools = TOOLS example_collect, ollama_chat = example_ollama_chat,
      json_dumps = example_json_dumps, console_print = example_console_print\<rparr>"

definition example_session :: "nat session" where
  "example_session =
     \<lparr>history = [\<lparr>role = User, content = ''hi''\<rparr>, \<lparr>role = Assistant, content = ''Hello!''\<rparr>],
      world = 0, requests = [], console = []\<rparr>"

definition example_results_turn :: turn where
  "example_results_turn =
     \<lparr>role = User,
      content = ''Here are the tool results:''
            @ ''\<newline>\<newline>Results from get_cpu_info:\<newline>[]''
            @ ''\<newline>\<newline>Results from get_gpu_info:\<newline>Unknown tool: get_gpu_info''
            @ ''\<newline>\<newline>Results from get_battery_info:\<newline>Error executing get_battery_info: no battery''
            @ ''\<newline>\<newline>Results from get_cpu_info:\<newline>[11]''
            @ ''\<newline>\<newline>Please explain these results to me in a friendly, easy-to-understand way.''\<rparr>"

definition example_final :: "nat session" where
  "example_final =
     \<lparr>history =
        [\<lparr>role = User, content = ''hi''\<rparr>,
         \<lparr>role = Assistant, content = ''Hello!''\<rparr>,
         \<lparr>role = User, content = ''status?''\<rparr>,
         \<lparr>role = Assistant, content = example_reply\<rparr>,
         example_results_turn,
         \<lparr>role = Assistant, content = ''All good.''\<rparr>],
      world = 3,
      requests =
        [system_turn example_env
           # [\<lparr>role = User, content = ''hi''\<rparr>,
              \<lparr>role = Assistant, content = ''Hello!''\<rparr>,
              \<lparr>role = User, content = ''status?''\<rparr>],
         system_turn example_env
           # [\<lparr>role = User, content = ''hi''\<rparr>,
              \<lparr>role = Assistant, content = ''Hello!''\<rparr>,
              \<lparr>role = User, content = ''status?''\<rparr>,
              \<lparr>role = Assistant, content = example_reply\<rparr>,
              example_results_turn]],
      console =
        [Running ''get_cpu_info'', Running ''get_gpu_info'', Running ''get_battery_info'',
         Running ''get_cpu_info'']\<rparr>"

section \<open>Facts about the scanner\<close>

lemma strip_prefix_Some: "strip_prefix p s = Some r \<longleftrightarrow> s = p @ r"
  by (induction p s rule: strip_prefix.induct) auto

lemma not_word_close: "\<not> is_word (CHR '']'')"
  by (simp add: is_word_def)

lemma not_word_open: "\<not> is_word (CHR ''['')"
  by (simp add: is_word_def)

lemma not_word_colon: "\<not> is_word (CHR '':'')"
  by (simp add: is_word_def)

lemma not_space_open: "\<not> is_space (CHR ''['')"
  by (simp add: is_space_def)

lemma not_space_close: "\<not> is_space (CHR '']'')"
  by (simp add: is_space_def)

lemma word_not_space: "is_word c \<Longrightarrow> \<not> is_space c"
  by (auto simp: is_word_def is_space_def Let_def)

lemma match_marker_sound:
  assumes "match_marker s = Some (name, rest)"
  shows "\<exists>ws. s = ''[TOOL:'' @ ws @ name @ '']'' @ rest \<and> (\<forall>c\<in>set ws. is_space c)
              \<and> name \<noteq> [] \<and> (\<forall>c\<in>set name. is_word c)"
proof -
  from assms obtain r where r: "strip_prefix ''[TOOL:'' s = Some r"
    by (auto simp: match_marker_def split: option.splits)
  define r1 where "r1 = dropWhile is_space r"
  from assms r have m: "dropWhile is_word r1 = CHR '']'' # rest" "name = takeWhile is_word r1"
    "name \<noteq> []"
    by (auto simp: match_marker_def r1_def Let_def split: list.splits if_splits)
  have "r = takeWhile is_space r @ r1"
    by (simp add: r1_def)
  moreover have "r1 = name @ CHR '']'' # rest"
    using m takeWhile_dropWhile_id [of is_word r1] by simp
  moreover have "\<forall>c\<in>set (takeWhile is_space r). is_space c"
    by (auto dest: set_takeWhileD)
  moreover have "\<forall>c\<in>set name. is_word c"
    using m by (auto dest: set_takeWhileD)
  ultimately show ?thesis
    using r m(3) unfolding strip_prefix_Some
    by (intro exI [of _ "takeWhile is_space r"]) (metis append_Cons append_Nil)
qed

lemma match_marker_complete:
  assumes "\<forall>c\<in>set ws. is_space c" and "name \<noteq> []" and "\<forall>c\<in>set name. is_word c"
  shows "match_marker (''[TOOL:'' @ ws @ name @ '']'' @ rest) = Some (name, rest)"
proof -
  from assms(2) obtain x xs where name: "name = x # xs"
    by (cases name) auto
  with assms(3) have "\<not> is_space x"
    by (simp add: word_not_space)
  with assms(1) have d: "dropWhile is_space (ws @ name @ CHR '']'' # rest) = name @ CHR '']'' # rest"
    by (simp add: name)
  have t: "takeWhile is_word (name @ CHR '']'' # rest) = name"
    using assms(3) by (simp add: not_word_close)
  have e: "dropWhile is_word (name @ CHR '']'' # rest) = CHR '']'' # rest"
    using assms(3) by (simp add: not_word_close)
  show ?thesis
    using assms(2) by (simp add: match_marker_def d t e)
qed

lemma match_marker_shorter: "match_marker s = Some (name, rest) \<Longrightarrow> length rest < length s"
  by (drule match_marker_sound) auto

lemma match_marker_append:
  assumes "match_marker s = Some (name, rest)"
  shows "match_marker (s @ t) = Some (name, rest @ t)"
proof -
  from match_marker_sound [OF assms] obtain ws where
    "s = ''[TOOL:'' @ ws @ name @ '']'' @ rest" "\<forall>c\<in>set ws. is_space c" "name \<noteq> []"
    "\<forall>c\<in>set name. is_word c"
    by blast
  then show ?thesis
    using match_marker_complete [of ws name "rest @ t"] by simp
qed

lemma match_marker_within:
  assumes "match_marker (pre @ t) = Some (name, rest)" and "pre \<noteq> []"
    and "t = [] \<or> hd t = CHR ''[''"
  shows "\<exists>rest'. rest = rest' @ t \<and> match_marker pre = Some (name, rest')"
proof -
  from match_marker_sound [OF assms(1)] obtain ws where
    ws: "pre @ t = ''[TOOL:'' @ ws @ name @ '']'' @ rest" "\<forall>c\<in>set ws. is_space c"
      "name \<noteq> []" "\<forall>c\<in>set name. is_word c"
    by blast
  define m where "m = ''[TOOL:'' @ ws @ name @ '']''"
  have pm: "pre @ t = m @ rest"
    using ws(1) by (simp add: m_def)
  have inner: "CHR ''['' \<notin> set (tl m)"
    using ws(2,4) not_space_open not_word_open by (auto simp: m_def)
  have mm: "match_marker (m @ us) = Some (name, us)" for us
    using match_marker_complete [OF ws(2,3,4), of us] by (simp add: m_def)
  from pm obtain us where "(pre = m @ us \<and> us @ t = rest) \<or> (pre @ us = m \<and> t = us @ rest)"
    by (auto simp: append_eq_append_conv2)
  then show ?thesis
  proof
    assume "pre = m @ us \<and> us @ t = rest"
    then show ?thesis
      using mm [of us] by auto
  next
    assume b: "pre @ us = m \<and> t = us @ rest"
    show ?thesis
    proof (cases us)
      case Nil
      with b show ?thesis
        using mm [of "[]"] by auto
    next
      case (Cons u us')
      with b assms(3) have "u = CHR ''[''"
        by auto
      with b Cons assms(2) have "CHR ''['' \<in> set (tl m)"
        by (cases pre) auto
      with inner show ?thesis
        by simp
    qed
  qed
qed

lemma findall_marker_append:
  "t = [] \<or> hd t = CHR ''['' \<Longrightarrow> findall_marker (pre @ t) = findall_marker pre @ findall_marker t"
proof (induction pre rule: findall_marker.induct)
  case 1
  then show ?case by simp
next
  case (2 c cs)
  show ?case
  proof (cases "match_marker (c # cs)")
    case None
    have "match_marker ((c # cs) @ t) = None"
    proof (rule ccontr)
      assume "match_marker ((c # cs) @ t) \<noteq> None"
      then obtain name rest where "match_marker ((c # cs) @ t) = Some (name, rest)"
        by auto
      from match_marker_within [OF this _ "2.prems"] None show False
        by auto
    qed
    with None "2.IH"(1) "2.prems" show ?thesis
      by simp
  next
    case (Some a)
    then obtain name rest where nr: "match_marker (c # cs) = Some (name, rest)"
      by (cases a) auto
    from match_marker_append [OF this] have "match_marker ((c # cs) @ t) = Some (name, rest @ t)" .
    with nr "2.IH"(2) [OF nr refl "2.prems"] show ?thesis
      by simp
  qed
qed

lemma findall_marker_at_marker:
  assumes "\<forall>c\<in>set ws. is_space c" and "name \<noteq> []" and "\<forall>c\<in>set name. is_word c"
  shows "findall_marker (''[TOOL:'' @ ws @ name @ '']'' @ post) = name # findall_marker post"
  using match_marker_complete [OF assms, of post] by simp

lemma findall_marker_mem:
  "name \<in> set (findall_marker s) \<Longrightarrow>
     \<exists>pre ws post. s = pre @ ''[TOOL:'' @ ws @ name @ '']'' @ post \<and> (\<forall>c\<in>set ws. is_space c)
       \<and> name \<noteq> [] \<and> (\<forall>c\<in>set name. is_word c)"
proof (induction s rule: findall_marker.induct)
  case 1
  then show ?case by simp
next
  case (2 c cs)
  show ?case
  proof (cases "match_marker (c # cs)")
    case None
    with "2.prems" have "name \<in> set (findall_marker cs)"
      by simp
    from "2.IH"(1) [OF None this] obtain pre ws post where
      "cs = pre @ ''[TOOL:'' @ ws @ name @ '']'' @ post" "\<forall>c\<in>set ws. is_space c"
      "name \<noteq> []" "\<forall>c\<in>set name. is_word c"
      by blast
    then show ?thesis
      by (intro exI [of _ "c # pre"] exI [of _ ws] exI [of _ post]) simp
  next
    case (Some a)
    then obtain n rest where nr: "match_marker (c # cs) = Some (n, rest)"
      by (cases a) auto
    from match_marker_sound [OF nr] obtain ws0 where
      m: "c # cs = ''[TOOL:'' @ ws0 @ n @ '']'' @ rest" "\<forall>c\<in>set ws0. is_space c"
        "n \<noteq> []" "\<forall>c\<in>set n. is_word c"
      by blast
    from nr "2.prems" have "name = n \<or> name \<in> set (findall_marker rest)"
      by simp
    then show ?thesis
    proof
      assume "name = n"
      with m show ?thesis
        by (intro exI [of _ "[]"] exI [of _ ws0] exI [of _ rest]) simp
    next
      assume "name \<in> set (findall_marker rest)"
      from "2.IH"(2) [OF nr refl this] obtain pre ws post where
        r: "rest = pre @ ''[TOOL:'' @ ws @ name @ '']'' @ post" "\<forall>c\<in>set ws. is_space c"
          "name \<noteq> []" "\<forall>c\<in>set name. is_word c"
        by blast
      show ?thesis
        using r m(1)
        by (intro exI [of _ "''[TOOL:'' @ ws0 @ n @ '']'' @ pre"] exI [of _ ws] exI [of _ post])
           simp
    qed
  qed
qed

lemma well_formed_markerD:
  "well_formed_marker m name \<Longrightarrow>
     \<exists>ws. m = ''[TOOL:'' @ ws @ name @ '']'' \<and> (\<forall>c\<in>set ws. is_space c) \<and> name \<noteq> []
       \<and> (\<forall>c\<in>set name. is_word c)"
  by (auto simp: well_formed_marker_def list_all_iff)

lemma well_formed_markerI:
  "(\<forall>c\<in>set ws. is_space c) \<Longrightarrow> name \<noteq> [] \<Longrightarrow> (\<forall>c\<in>set name. is_word c) \<Longrightarrow>
     well_formed_marker (''[TOOL:'' @ ws @ name @ '']'') name"
  by (auto simp: well_formed_marker_def list_all_iff)

lemma findall_marker_split:
  assumes "well_formed_marker m name"
  shows "findall_marker (pre @ m @ post) = findall_marker pre @ name # findall_marker post"
proof -
  from well_formed_markerD [OF assms] obtain ws where
    ws: "m = ''[TOOL:'' @ ws @ name @ '']''" "\<forall>c\<in>set ws. is_space c" "name \<noteq> []"
      "\<forall>c\<in>set name. is_word c"
    by blast
  have "hd (m @ post) = CHR ''[''"
    by (simp add: ws(1))
  then have "findall_marker (pre @ m @ post) = findall_marker pre @ findall_marker (m @ post)"
    by (intro findall_marker_append) simp
  also have "findall_marker (m @ post) = name # findall_marker post"
    using findall_marker_at_marker [OF ws(2,3,4), of post] by (simp add: ws(1))
  finally show ?thesis .
qed

lemma marker_substring_iff:
  "name \<in> set (findall_marker text) \<longleftrightarrow>
     (\<exists>pre m post. text = pre @ m @ post \<and> well_formed_marker m name)"
proof
  assume "name \<in> set (findall_marker text)"
  from findall_marker_mem [OF this] obtain pre ws post where
    "text = pre @ ''[TOOL:'' @ ws @ name @ '']'' @ post" "\<forall>c\<in>set ws. is_space c"
    "name \<noteq> []" "\<forall>c\<in>set name. is_word c"
    by blast
  then show "\<exists>pre m post. text = pre @ m @ post \<and> well_formed_marker m name"
    using well_formed_markerI [of ws name]
    by (intro exI [of _ pre] exI [of _ "''[TOOL:'' @ ws @ name @ '']''"] exI [of _ post]) simp
next
  assume "\<exists>pre m post. text = pre @ m @ post \<and> well_formed_marker m name"
  then show "name \<in> set (findall_marker text)"
    by (auto simp: findall_marker_split)
qed

lemma contains_marker_iff: "contains_marker text \<longleftrightarrow> findall_marker text \<noteq> []"
proof -
  have "contains_marker text \<longleftrightarrow> (\<exists>name. name \<in> set (findall_marker text))"
    unfolding contains_marker_def marker_substring_iff by blast
  then show ?thesis
    by (cases "findall_marker text") auto
qed

lemma contains_markerI: "well_formed_marker m name \<Longrightarrow> contains_marker (pre @ m @ post)"
  unfolding contains_marker_def by blast

lemma contains_marker_open: "contains_marker text \<Longrightarrow> CHR ''['' \<in> set text \<and> CHR ''T'' \<in> set text"
  by (auto simp: contains_marker_def well_formed_marker_def)

lemma findall_marker_words:
  "name \<in> set (findall_marker text) \<Longrightarrow> name \<noteq> [] \<and> (\<forall>c\<in>set name. is_word c)"
  by (drule findall_marker_mem) blast

lemma word_char:
  "is_word c \<Longrightarrow> \<not> is_space c \<and> c \<noteq> CHR ''['' \<and> c \<noteq> CHR '']'' \<and> c \<noteq> CHR '':''"
  using word_not_space not_word_open not_word_close not_word_colon by blast

lemma scans_findall: "scans s (findall_marker s)"
proof (induction s rule: findall_marker.induct)
  case 1
  show ?case by (simp add: scans_end)
next
  case (2 c cs)
  show ?case
  proof (cases "match_marker (c # cs)")
    case None
    have "\<not> (\<exists>m name post. c # cs = m @ post \<and> well_formed_marker m name)"
    proof
      assume "\<exists>m name post. c # cs = m @ post \<and> well_formed_marker m name"
      then obtain m name post where mp: "c # cs = m @ post" "well_formed_marker m name"
        by blast
      from well_formed_markerD [OF mp(2)] obtain ws where
        "m = ''[TOOL:'' @ ws @ name @ '']''" "\<forall>c\<in>set ws. is_space c" "name \<noteq> []"
        "\<forall>c\<in>set name. is_word c"
        by blast
      with match_marker_complete [of ws name post] mp(1) None show False
        by simp
    qed
    with "2.IH"(1) [OF None] None show ?thesis
      by (simp add: scans_skip)
  next
    case (Some a)
    then obtain name rest where nr: "match_marker (c # cs) = Some (name, rest)"
      by (cases a) auto
    from match_marker_sound [OF nr] obtain ws where
      m: "c # cs = ''[TOOL:'' @ ws @ name @ '']'' @ rest" "\<forall>c\<in>set ws. is_space c"
        "name \<noteq> []" "\<forall>c\<in>set name. is_word c"
      by blast
    have "scans ((''[TOOL:'' @ ws @ name @ '']'') @ rest) (name # findall_marker rest)"
      using well_formed_markerI [OF m(2,3,4)] "2.IH"(2) [OF nr refl] by (rule scans_marker)
    with m(1) nr show ?thesis
      by simp
  qed
qed

lemma scans_unique: "scans text names \<Longrightarrow> names = findall_marker text"
proof (induction rule: scans.induct)
  case scans_end
  show ?case by simp
next
  case (scans_marker m name post names)
  then show ?case
    using findall_marker_split [of m name "[]" post] by simp
next
  case (scans_skip c cs names)
  have "match_marker (c # cs) = None"
  proof (rule ccontr)
    assume "match_marker (c # cs) \<noteq> None"
    then obtain name rest where nr: "match_marker (c # cs) = Some (name, rest)"
      by auto
    from match_marker_sound [OF nr] obtain ws where
      m: "c # cs = ''[TOOL:'' @ ws @ name @ '']'' @ rest" "\<forall>c\<in>set ws. is_space c"
        "name \<noteq> []" "\<forall>c\<in>set name. is_word c"
      by blast
    from well_formed_markerI [OF m(2,3,4)] m(1) scans_skip.hyps(1) show False
      by (metis append.assoc)
  qed
  with scans_skip.IH show ?case
    by simp
qed

section \<open>Facts about the dispatcher and the orchestrator\<close>

lemma tool_loop_frame:
  "tool_loop env names acc st = (r, st') \<Longrightarrow> history st' = history st \<and> requests st' = requests st"
proof (induction names arbitrary: acc st)
  case Nil
  then show ?case by auto
next
  case (Cons n names)
  then show ?case
    by (auto simp: Let_def split: prod.splits sum.splits)
qed

lemma tool_loop_dispatch:
  "dispatch_in_order env names (world st) = (Inr payloads, w') \<Longrightarrow>
   tool_loop env names acc st =
     (Inr (acc @ map2 (\<lambda>name payload. ''Results from '' @ name @ '':\<newline>'' @ payload) names payloads),
      st\<lparr>world := w', console := console st @ map Running names\<rparr>)"
proof (induction names arbitrary: acc st payloads)
  case Nil
  then show ?case by simp
next
  case (Cons n names)
  from Cons.prems obtain u w0 p w1 ps where
    c: "console_print env (Running n) (world st) = (Inr u, w0)"
    and e: "execute_tool env n w0 = (Inr p, w1)"
    and d: "dispatch_in_order env names w1 = (Inr ps, w')"
    and ps: "payloads = p # ps"
    by (auto split: prod.splits sum.splits)
  let ?st1 = "st\<lparr>console := console st @ [Running n], world := w1\<rparr>"
  have "dispatch_in_order env names (world ?st1) = (Inr ps, w')"
    using d by simp
  from Cons.IH [OF this] c e ps show ?case
    by (simp add: Let_def)
qed

lemma dispatch_in_order_length:
  "dispatch_in_order env names w = (Inr payloads, w') \<Longrightarrow> length payloads = length names"
  by (induction names arbitrary: w payloads) (auto split: prod.splits sum.splits)

lemma join_concat: "xs \<noteq> [] \<Longrightarrow> sep @ join sep xs = concat (map (\<lambda>x. sep @ x) xs)"
  by (induction sep xs rule: join.induct) auto

lemma tool_results_message_concat:
  assumes "xs \<noteq> []"
  shows "tool_results_message (join ''\<newline>\<newline>'' xs) =
     ''Here are the tool results:'' @ concat (map (\<lambda>x. ''\<newline>\<newline>'' @ x) xs)
       @ ''\<newline>\<newline>Please explain these results to me in a friendly, easy-to-understand way.''"
  using join_concat [OF assms, of "''\<newline>\<newline>''"] by (simp add: tool_results_message_def)

lemma format_tool_descriptions_concat:
  "format_tool_descriptions registry =
     drop 1 (concat (map (\<lambda>(name, info). ''\<newline>- '' @ name @ '': '' @ description info) registry))"
proof (cases registry)
  case Nil
  then show ?thesis
    by (simp add: format_tool_descriptions_def)
next
  case (Cons a registry')
  let ?line = "\<lambda>(name, info). ''- '' @ name @ '': '' @ description info"
  have "map ?line registry \<noteq> []"
    using Cons by simp
  from join_concat [OF this, of "''\<newline>''"]
  have "''\<newline>'' @ format_tool_descriptions registry
      = concat (map (\<lambda>(name, info). ''\<newline>- '' @ name @ '': '' @ description info) registry)"
    by (simp add: format_tool_descriptions_def comp_def case_prod_unfold)
  then have "drop 1 (''\<newline>'' @ format_tool_descriptions registry)
      = drop 1 (concat (map (\<lambda>(name, info). ''\<newline>- '' @ name @ '': '' @ description info) registry))"
    by (rule arg_cong)
  then show ?thesis
    by simp
qed

lemma execute_tool_registered:
  assumes "map_of (tools env) tool_name = Some info"
  shows "execute_tool env tool_name w =
     (case func info w of
        (Inl (Exception msg), w') \<Rightarrow> (Inr (''Error executing '' @ tool_name @ '': '' @ msg), w')
      | (Inl (BaseException msg), w') \<Rightarrow> (Inl (BaseException msg), w')
      | (Inr result, w') \<Rightarrow>
          (case json_dumps env result of
             Inl (Exception msg) \<Rightarrow> (Inr (''Error executing '' @ tool_name @ '': '' @ msg), w')
           | Inl (BaseException msg) \<Rightarrow> (Inl (BaseException msg), w')
           | Inr text \<Rightarrow> (Inr text, w')))"
  using assms by (simp add: execute_tool_def split: prod.splits sum.splits exn.splits)

lemma execute_tool_no_Exception: "fst (execute_tool env tool_name w) \<noteq> Inl (Exception msg)"
  by (simp add: execute_tool_def split: option.splits prod.splits sum.splits exn.splits)

lemma contains_marker_extract: "contains_marker reply \<longleftrightarrow> extract_tool_calls reply \<noteq> []"
  by (simp add: extract_tool_calls_def contains_marker_iff)

lemma chat_cases:
  fixes env :: "('w, 'r) env" and st :: "'w session"
  assumes run: "chat env user_message st = (res, st')"
  shows "(requests st' = requests st
             @ [system_turn env # history st @ [\<lparr>role = User, content = user_message\<rparr>]]
          \<and> (history st' = history st @ [\<lparr>role = User, content = user_message\<rparr>]
               \<or> (\<exists>reply. history st' = history st
                     @ [\<lparr>role = User, content = user_message\<rparr>,
                        \<lparr>role = Assistant, content = reply\<rparr>])))
       \<or> (\<exists>reply results.
            requests st' = requests st
               @ [system_turn env # history st @ [\<lparr>role = User, content = user_message\<rparr>],
                  system_turn env # history st
                    @ [\<lparr>role = User, content = user_message\<rparr>,
                       \<lparr>role = Assistant, content = reply\<rparr>, \<lparr>role = User, content = results\<rparr>]]
          \<and> (history st' = history st
                 @ [\<lparr>role = User, content = user_message\<rparr>,
                    \<lparr>role = Assistant, content = reply\<rparr>, \<lparr>role = User, content = results\<rparr>]
               \<or> (\<exists>reply2. history st' = history st
                     @ [\<lparr>role = User, content = user_message\<rparr>,
                        \<lparr>role = Assistant, content = reply\<rparr>, \<lparr>role = User, content = results\<rparr>,
                        \<lparr>role = Assistant, content = reply2\<rparr>])))"
proof -
  let ?u = "\<lparr>role = User, content = user_message\<rparr>"
  let ?st1 = "st\<lparr>history := history st @ [?u]\<rparr>"
  obtain r1 st2 where b1: "backend_call env ?st1 = (r1, st2)"
    by (cases "backend_call env ?st1") auto
  then have st2: "history st2 = history st @ [?u]"
    "requests st2 = requests st @ [system_turn env # history st @ [?u]]"
    by (auto simp: backend_call_def Let_def split: prod.splits)
  show ?thesis
  proof (cases r1)
    case (Inl e)
    with run b1 st2 show ?thesis
      by (simp add: chat_def Let_def)
  next
    case (Inr reply)
    show ?thesis
    proof (cases "extract_tool_calls reply = []")
      case True
      with run b1 Inr st2 show ?thesis
        by (auto simp: chat_def Let_def)
    next
      case False
      obtain r2 st3 where l: "tool_loop env (extract_tool_calls reply) [] st2 = (r2, st3)"
        by (cases "tool_loop env (extract_tool_calls reply) [] st2") auto
      from tool_loop_frame [OF l] st2 have st3: "history st3 = history st @ [?u]"
        "requests st3 = requests st @ [system_turn env # history st @ [?u]]"
        by simp_all
      show ?thesis
      proof (cases r2)
        case (Inl e)
        with run b1 Inr False l st3 show ?thesis
          by (simp add: chat_def Let_def)
      next
        case results: (Inr tool_results)
        let ?a = "\<lparr>role = Assistant, content = reply\<rparr>"
        let ?r = "\<lparr>role = User, content = tool_results_message (join ''\<newline>\<newline>'' tool_results)\<rparr>"
        let ?st5 = "st3\<lparr>history := history st3 @ [?a]\<rparr>\<lparr>history := history (st3\<lparr>history := history st3 @ [?a]\<rparr>) @ [?r]\<rparr>"
        obtain r3 st6 where b2: "backend_call env ?st5 = (r3, st6)"
          by (cases "backend_call env ?st5") auto
        then have st6: "history st6 = history st @ [?u, ?a, ?r]"
          "requests st6 = requests st @ [system_turn env # history st @ [?u],
             system_turn env # history st @ [?u, ?a, ?r]]"
          using st3 by (auto simp: backend_call_def Let_def split: prod.splits)
        from run b1 Inr False l results b2 st6 show ?thesis
          by (cases r3) (auto simp: chat_def Let_def)
      qed
    qed
  qed
qed

lemma system_turn_unfold:
  "system_turn env =
     \<lparr>role = System,
      content = SYSTEM_PROMPT_head
        @ drop 1 (concat (map (\<lambda>(name, info). ''\<newline>- '' @ name @ '': '' @ description info)
                    (tools env)))
        @ SYSTEM_PROMPT_tail\<rparr>"
  unfolding system_turn_def SYSTEM_PROMPT_format_def format_tool_descriptions_concat ..

section \<open>The concrete environment at work\<close>

lemma example_extract:
  "extract_tool_calls example_reply = [''get_cpu_info'', ''get_gpu_info'', ''get_battery_info'', ''get_cpu_info'']"
  by (simp add: example_reply_def extract_tool_calls_def match_marker_def is_space_def is_word_def)

lemma example_marker: "contains_marker example_reply"
  using contains_markerI [OF well_formed_markerI, of "'' ''" "''get_cpu_info''" "''Checking. ''"
      "'' [TOOL: get_gpu_info] [TOOL: get_battery_info] [TOOL: get_cpu_info]''"]
  by (simp add: example_reply_def is_space_def is_word_def)

lemma example_no_marker: "\<not> contains_marker ''Hello!''"
  by (rule notI, drule contains_marker_open) simp

lemma example_dispatch:
  "dispatch_in_order example_env [''get_cpu_info'', ''get_gpu_info'', ''get_battery_info'', ''get_cpu_info''] 0
     = (Inr [''[]'', ''Unknown tool: get_gpu_info'', ''Error executing get_battery_info: no battery'', ''[11]''],
        3)"
  by (simp add: execute_tool_def example_env_def TOOLS_def example_collect_def
      example_json_dumps_def example_console_print_def numeral_2_eq_2)

lemma example_chat_run:
  "chat example_env ''status?'' example_session = (Inr ''All good.'', example_final)"
proof -
  have "tool_loop example_env [''get_cpu_info'', ''get_gpu_info'', ''get_battery_info'', ''get_cpu_info''] [] (example_session\<lparr>history := h, requests := r\<rparr>)
      = (Inr (map2 (\<lambda>name payload. ''Results from '' @ name @ '':\<newline>'' @ payload) [''get_cpu_info'', ''get_gpu_info'', ''get_battery_info'', ''get_cpu_info'']
           [''[]'', ''Unknown tool: get_gpu_info'', ''Error executing get_battery_info: no battery'', ''[11]'']),
         example_session\<lparr>history := h, requests := r, world := 3, console := map Running [''get_cpu_info'', ''get_gpu_info'', ''get_battery_info'', ''get_cpu_info'']\<rparr>)"
    for h r
    using tool_loop_dispatch [of example_env "[''get_cpu_info'', ''get_gpu_info'', ''get_battery_info'', ''get_cpu_info'']" "example_session\<lparr>history := h, requests := r\<rparr>"
        "[''[]'', ''Unknown tool: get_gpu_info'', ''Error executing get_battery_info: no battery'', ''[11]'']" 3 "[]"] example_dispatch
    by (simp add: example_session_def)
  then show ?thesis
    by (simp add: chat_def backend_call_def Let_def example_extract tool_results_message_def
        example_final_def example_results_turn_def example_session_def
        example_env_def [THEN arg_cong [of _ _ ollama_chat]] example_ollama_chat_def
        example_reply_def [symmetric])
qed

lemma example_descriptions:
  "format_tool_descriptions (tools example_env) =
     ''- get_system_info: Get basic system information like OS, hostname, and processor\<newline>''
        @ ''- get_cpu_info: Get CPU usage, core count, and frequency information\<newline>''
        @ ''- get_memory_info: Get RAM and swap memory usage\<newline>''
        @ ''- get_disk_info: Get disk partition and storage usage information\<newline>''
        @ ''- get_network_info: Get network interfaces, IP addresses, and data transfer stats\<newline>''
        @ ''- get_process_info: Get top processes by memory usage\<newline>''
        @ ''- get_battery_info: Get battery status and charge level (for laptops)\<newline>''
        @ ''- get_uptime: Get system boot time and uptime duration''"
  by (simp add: format_tool_descriptions_def example_env_def TOOLS_def)

lemma example_system_prompt:
  "content (system_turn example_env) =
     ''You are a helpful assistant that runs locally on the user's machine. \<newline>''
        @ ''You have access to tools that can retrieve information about the system you're running on.\<newline>''
        @ ''\<newline>''
        @ ''Available tools:\<newline>''
        @ ''- get_system_info: Get basic system information like OS, hostname, and processor\<newline>''
        @ ''- get_cpu_info: Get CPU usage, core count, and frequency information\<newline>''
        @ ''- get_memory_info: Get RAM and swap memory usage\<newline>''
        @ ''- get_disk_info: Get disk partition and storage usage information\<newline>''
        @ ''- get_network_info: Get network interfaces, IP addresses, and data transfer stats\<newline>''
        @ ''- get_process_info: Get top processes by memory usage\<newline>''
        @ ''- get_battery_info: Get battery status and charge level (for laptops)\<newline>''
        @ ''- get_uptime: Get system boot time and uptime duration''
        @ ''\<newline>''
        @ ''\<newline>''
        @ ''When the user asks about system information, use the appropriate tool by responding with:\<newline>''
        @ ''[TOOL: tool_name]\<newline>''
        @ ''\<newline>''
        @ ''For example:\<newline>''
        @ ''- If asked about CPU usage, respond with [TOOL: get_cpu_info]\<newline>''
        @ ''- If asked about memory/RAM, respond with [TOOL: get_memory_info]\<newline>''
        @ ''- If asked about disk space, respond with [TOOL: get_disk_info]\<newline>''
        @ ''- If asked about network, respond with [TOOL: get_network_info]\<newline>''
        @ ''- If asked about running processes, respond with [TOOL: get_process_info]\<newline>''
        @ ''- If asked about battery, respond with [TOOL: get_battery_info]\<newline>''
        @ ''- If asked about uptime or boot time, respond with [TOOL: get_uptime]\<newline>''
        @ ''- If asked about general system info (OS, hostname), respond with [TOOL: get_system_info]\<newline>''
        @ ''\<newline>''
        @ ''After receiving tool results, explain them to the user in a friendly, clear way.\<newline>''
        @ ''You can use multiple tools if needed to answer complex questions.\<newline>''"
  by (simp add: system_turn_def SYSTEM_PROMPT_format_def SYSTEM_PROMPT_head_def
      SYSTEM_PROMPT_tail_def example_descriptions)

section \<open>The claims\<close>

text \<open>
  Claim C1. When the first reply of the model contains at least one well-formed marker,
  every extracted name is announced and dispatched in extraction order, and the second
  call of the backend returns a reply, then \<open>chat\<close> has made exactly two backend calls,
  the history has grown by exactly four turns (the user message as a user turn, the first
  reply verbatim as an assistant turn, a user turn holding one result string per
  extracted name, in extraction order, each behind a blank line, between the fixed opening
  and the fixed request to explain them, and the second reply as an assistant turn), and
  the second reply is returned. Where \<^verbatim>\<open>console.print\<close> raises, or a tool raises an
  exception outside \<^verbatim>\<open>Exception\<close>, the names are not all dispatched and \<open>chat\<close> raises.
\<close>

theorem chat_with_tool_calls:
  fixes env :: "('w, 'r) env" and st :: "'w session"
    and user_message reply1 reply2 :: string and payloads :: "string list"
  defines "user_turn \<equiv> \<lparr>role = User, content = user_message\<rparr>"
    and "assistant_turn \<equiv> \<lparr>role = Assistant, content = reply1\<rparr>"
    and "results_turn \<equiv>
      \<lparr>role = User,
       content = ''Here are the tool results:''
         @ concat (map2 (\<lambda>name payload. ''\<newline>\<newline>Results from '' @ name @ '':\<newline>'' @ payload)
             (extract_tool_calls reply1) payloads)
         @ ''\<newline>\<newline>Please explain these results to me in a friendly, easy-to-understand way.''\<rparr>"
  assumes first: "ollama_chat env MODEL (system_turn env # history st @ [user_turn]) (world st)
      = (Inr reply1, w1)"
    and marker: "contains_marker reply1"
    and dispatched: "dispatch_in_order env (extract_tool_calls reply1) w1 = (Inr payloads, w2)"
    and second: "ollama_chat env MODEL
        (system_turn env # history st @ [user_turn, assistant_turn, results_turn]) w2
      = (Inr reply2, w3)"
  shows "chat env user_message st =
     (Inr reply2,
      st\<lparr>history := history st
            @ [user_turn, assistant_turn, results_turn, \<lparr>role = Assistant, content = reply2\<rparr>],
         world := w3,
         requests := requests st
            @ [system_turn env # history st @ [user_turn],
               system_turn env # history st @ [user_turn, assistant_turn, results_turn]],
         console := console st @ map Running (extract_tool_calls reply1)\<rparr>)"
proof -
  let ?results = "map2 (\<lambda>name payload. ''Results from '' @ name @ '':\<newline>'' @ payload)
      (extract_tool_calls reply1) payloads"
  let ?joined = "\<lparr>role = User, content = tool_results_message (join ''\<newline>\<newline>'' ?results)\<rparr>"
  have calls: "extract_tool_calls reply1 \<noteq> []"
    using marker by (simp add: contains_marker_extract)
  have "length payloads = length (extract_tool_calls reply1)"
    using dispatched by (rule dispatch_in_order_length)
  with calls have "?results \<noteq> []"
    by (cases "extract_tool_calls reply1"; cases payloads) auto
  from tool_results_message_concat [OF this] have joined: "?joined = results_turn"
    by (simp add: results_turn_def comp_def case_prod_unfold)
  let ?st1 = "st\<lparr>history := history st @ [user_turn]\<rparr>"
  let ?st2 = "?st1\<lparr>world := w1, requests := requests st @ [system_turn env # history ?st1]\<rparr>"
  have b1: "backend_call env ?st1 = (Inr reply1, ?st2)"
    using first by (simp add: backend_call_def)
  have "dispatch_in_order env (extract_tool_calls reply1) (world ?st2) = (Inr payloads, w2)"
    using dispatched by simp
  note loop = tool_loop_dispatch [OF this, of "[]"]
  let ?st3 = "?st2\<lparr>world := w2, console := console ?st2 @ map Running (extract_tool_calls reply1)\<rparr>"
  let ?st5 = "?st3\<lparr>history := history st @ [user_turn, assistant_turn, ?joined]\<rparr>"
  have b2: "backend_call env ?st5
      = (Inr reply2, ?st5\<lparr>world := w3, requests := requests ?st5 @ [system_turn env # history ?st5]\<rparr>)"
    using second unfolding joined [symmetric] by (simp add: backend_call_def)
  have "chat env user_message st =
     (Inr reply2,
      st\<lparr>history := history st
            @ [user_turn, assistant_turn, ?joined, \<lparr>role = Assistant, content = reply2\<rparr>],
         world := w3,
         requests := requests st
            @ [system_turn env # history st @ [user_turn],
               system_turn env # history st @ [user_turn, assistant_turn, ?joined]],
         console := console st @ map Running (extract_tool_calls reply1)\<rparr>)"
    unfolding chat_def
    using b1 calls loop b2
    by (simp add: Let_def user_turn_def assistant_turn_def)
  then show ?thesis
    unfolding joined .
qed

theorem chat_with_tool_calls_witness:
  "ollama_chat example_env MODEL
      (system_turn example_env # history example_session @ [\<lparr>role = User, content = ''status?''\<rparr>])
      (world example_session)
     = (Inr example_reply, 0)
   \<and> contains_marker example_reply
   \<and> extract_tool_calls example_reply = [''get_cpu_info'', ''get_gpu_info'', ''get_battery_info'', ''get_cpu_info'']
   \<and> dispatch_in_order example_env (extract_tool_calls example_reply) 0
       = (Inr [''[]'', ''Unknown tool: get_gpu_info'', ''Error executing get_battery_info: no battery'', ''[11]''],
          3)
   \<and> ollama_chat example_env MODEL
       (system_turn example_env # history example_session
          @ [\<lparr>role = User, content = ''status?''\<rparr>,
             \<lparr>role = Assistant, content = example_reply\<rparr>,
             example_results_turn]) 3
      = (Inr ''All good.'', 3)
   \<and> chat example_env ''status?'' example_session = (Inr ''All good.'', example_final)"
proof -
  have h1: "ollama_chat example_env MODEL
      (system_turn example_env # history example_session @ [\<lparr>role = User, content = ''status?''\<rparr>])
      (world example_session)
     = (Inr example_reply, 0)"
    by (simp add: example_env_def example_ollama_chat_def example_session_def)
  have h3: "dispatch_in_order example_env (extract_tool_calls example_reply) 0
       = (Inr [''[]'', ''Unknown tool: get_gpu_info'', ''Error executing get_battery_info: no battery'', ''[11]''],
          3)"
    unfolding example_extract by (rule example_dispatch)
  have r: "\<lparr>role = User,
       content = ''Here are the tool results:''
         @ concat (map2 (\<lambda>name payload. ''\<newline>\<newline>Results from '' @ name @ '':\<newline>'' @ payload)
             (extract_tool_calls example_reply)
             [''[]'', ''Unknown tool: get_gpu_info'', ''Error executing get_battery_info: no battery'', ''[11]''])
         @ ''\<newline>\<newline>Please explain these results to me in a friendly, easy-to-understand way.''\<rparr>
     = example_results_turn"
    by (simp add: example_extract example_results_turn_def)
  have h4: "ollama_chat example_env MODEL
       (system_turn example_env # history example_session
          @ [\<lparr>role = User, content = ''status?''\<rparr>,
             \<lparr>role = Assistant, content = example_reply\<rparr>,
             example_results_turn]) 3
      = (Inr ''All good.'', 3)"
    by (simp add: example_env_def example_ollama_chat_def example_session_def
        example_results_turn_def)
  have "chat example_env ''status?'' example_session = (Inr ''All good.'', example_final)"
    using chat_with_tool_calls [OF h1 example_marker h3, unfolded r, OF h4]
    by (simp add: example_extract example_session_def example_final_def)
  with h1 example_marker example_extract h3 h4 show ?thesis
    by (intro conjI)
qed

text \<open>
  Claim C2. When the first reply of the model contains no well-formed marker, \<open>chat\<close> has
  made exactly one backend call, the history has grown by exactly two turns (the user
  message as a user turn, the reply as an assistant turn), and the reply is returned
  unchanged.
\<close>

theorem chat_without_tool_calls:
  fixes env :: "('w, 'r) env" and st :: "'w session"
  assumes first: "ollama_chat env MODEL
        (system_turn env # history st @ [\<lparr>role = User, content = user_message\<rparr>]) (world st)
      = (Inr reply, w1)"
    and no_marker: "\<not> contains_marker reply"
  shows "chat env user_message st =
     (Inr reply,
      st\<lparr>history := history st
            @ [\<lparr>role = User, content = user_message\<rparr>, \<lparr>role = Assistant, content = reply\<rparr>],
         world := w1,
         requests := requests st
            @ [system_turn env # history st @ [\<lparr>role = User, content = user_message\<rparr>]]\<rparr>)"
proof -
  have "extract_tool_calls reply = []"
    using no_marker by (simp add: contains_marker_extract)
  then show ?thesis
    using first by (simp add: chat_def backend_call_def Let_def)
qed

theorem chat_without_tool_calls_witness:
  "ollama_chat example_env MODEL
      (system_turn example_env # history \<lparr>history = [], world = 5, requests = [], console = []\<rparr>
         @ [\<lparr>role = User, content = ''hi''\<rparr>])
      (world \<lparr>history = [], world = 5, requests = [], console = []\<rparr>)
     = (Inr ''Hello!'', 5)
   \<and> \<not> contains_marker ''Hello!''
   \<and> chat example_env ''hi'' \<lparr>history = [], world = 5, requests = [], console = []\<rparr> =
       (Inr ''Hello!'',
        \<lparr>history = [\<lparr>role = User, content = ''hi''\<rparr>, \<lparr>role = Assistant, content = ''Hello!''\<rparr>],
         world = 5,
         requests = [[system_turn example_env, \<lparr>role = User, content = ''hi''\<rparr>]],
         console = []\<rparr>)"
proof -
  have h1: "ollama_chat example_env MODEL
      (system_turn example_env # history \<lparr>history = [], world = 5, requests = [], console = []\<rparr>
         @ [\<lparr>role = User, content = ''hi''\<rparr>])
      (world \<lparr>history = [], world = 5, requests = [], console = []\<rparr>)
     = (Inr ''Hello!'', 5)"
    by (simp add: example_env_def example_ollama_chat_def)
  from chat_without_tool_calls [OF h1 example_no_marker] h1 example_no_marker show ?thesis
    by simp
qed

text \<open>
  Claim C3. For a registered tool name: when the tool's function raises an error (an
  instance of \<^verbatim>\<open>Exception\<close>) with message \<open>msg\<close>, \<open>execute_tool\<close> returns the string
  \<^verbatim>\<open>Error executing {name}: {msg}\<close>; when it returns a result, \<open>execute_tool\<close> returns the
  text \<^verbatim>\<open>json.dumps(result, indent=2)\<close> yields; and no \<^verbatim>\<open>Exception\<close> ever leaves
  \<open>execute_tool\<close>.
\<close>

theorem execute_tool_contains_tool_errors:
  assumes "map_of (tools env) tool_name = Some info"
  shows "(func info w = (Inl (Exception msg), w') \<longrightarrow>
            execute_tool env tool_name w
              = (Inr (''Error executing '' @ tool_name @ '': '' @ msg), w'))
       \<and> (func info w = (Inr result, w') \<longrightarrow> json_dumps env result = Inr text \<longrightarrow>
            execute_tool env tool_name w = (Inr text, w'))
       \<and> fst (execute_tool env tool_name w) \<noteq> Inl (Exception msg')"
  using execute_tool_registered [OF assms, of w] execute_tool_no_Exception [of env tool_name w msg']
  by simp

theorem execute_tool_contains_tool_errors_witness:
  "map_of (tools example_env) ''get_battery_info''
     = Some \<lparr>func = example_collect ''get_battery_info'',
             description = ''Get battery status and charge level (for laptops)''\<rparr>
   \<and> example_collect ''get_battery_info'' 3 = (Inl (Exception ''no battery''), 4)
   \<and> execute_tool example_env ''get_battery_info'' 3
       = (Inr ''Error executing get_battery_info: no battery'', 4)
   \<and> map_of (tools example_env) ''get_uptime''
       = Some \<lparr>func = example_collect ''get_uptime'',
               description = ''Get system boot time and uptime duration''\<rparr>
   \<and> example_collect ''get_uptime'' 3 = (Inr 3, 4)
   \<and> json_dumps example_env 3 = Inr ''[111]''
   \<and> execute_tool example_env ''get_uptime'' 3 = (Inr ''[111]'', 4)"
proof -
  have r1: "map_of (tools example_env) ''get_battery_info''
     = Some \<lparr>func = example_collect ''get_battery_info'',
             description = ''Get battery status and charge level (for laptops)''\<rparr>"
    by (simp add: example_env_def TOOLS_def)
  have f1: "example_collect ''get_battery_info'' 3 = (Inl (Exception ''no battery''), 4)"
    by (simp add: example_collect_def)
  have r2: "map_of (tools example_env) ''get_uptime''
       = Some \<lparr>func = example_collect ''get_uptime'',
               description = ''Get system boot time and uptime duration''\<rparr>"
    by (simp add: example_env_def TOOLS_def)
  have f2: "example_collect ''get_uptime'' 3 = (Inr 3, 4)"
    by (simp add: example_collect_def)
  have j: "json_dumps example_env 3 = Inr ''[111]''"
    by (simp add: example_env_def example_json_dumps_def numeral_3_eq_3)
  from execute_tool_contains_tool_errors [OF r1, of 3 "''no battery''" 4] f1
  have "execute_tool example_env ''get_battery_info'' 3
       = (Inr ''Error executing get_battery_info: no battery'', 4)"
    by simp
  moreover from execute_tool_contains_tool_errors [OF r2, of 3 _ 4 3 "''[111]''"] f2 j
  have "execute_tool example_env ''get_uptime'' 3 = (Inr ''[111]'', 4)"
    by simp
  ultimately show ?thesis
    using r1 f1 r2 f2 j by simp
qed

text \<open>
  Claim C4. For a name that is not a key of the registry, \<open>execute_tool\<close> returns the
  string \<^verbatim>\<open>Unknown tool: {name}\<close>, which contains the name literally; it raises nothing and
  calls no tool.
\<close>

theorem execute_tool_unknown_name:
  "tool_name \<notin> fst ` set (tools env) \<Longrightarrow>
     execute_tool env tool_name w = (Inr (''Unknown tool: '' @ tool_name), w)"
  by (simp add: execute_tool_def map_of_eq_None_iff [THEN iffD2])

theorem execute_tool_unknown_name_witness:
  "''get_gpu_info'' \<notin> fst ` set (tools example_env)
   \<and> execute_tool example_env ''get_gpu_info'' 7 = (Inr ''Unknown tool: get_gpu_info'', 7)"
proof -
  have "''get_gpu_info'' \<notin> fst ` set (tools example_env)"
    by (simp add: example_env_def TOOLS_def)
  then show ?thesis
    using execute_tool_unknown_name [of "''get_gpu_info''" example_env 7] by simp
qed

text \<open>
  Claim C5. The Scanner recognizes exactly one marker syntax, case-sensitive on the tag
  keyword and on the characters of the name: a name is extracted from a text if and only
  if the text has a substring that fully matches the marker grammar (opening tag token,
  the literal word TOOL, a colon, optional whitespace, an identifier of word characters,
  closing tag token) with that name as its identifier.
\<close>

theorem scanner_recognizes_exactly_the_marker_grammar:
  "name \<in> set (extract_tool_calls text) \<longleftrightarrow>
     (\<exists>pre m post. text = pre @ m @ post \<and> well_formed_marker m name)"
  unfolding extract_tool_calls_def by (rule marker_substring_iff)

theorem scanner_recognizes_exactly_the_marker_grammar_witness:
  "''get_cpu_info'' \<in> set (extract_tool_calls ''ok [TOOL: get_cpu_info]'')
   \<and> (\<exists>pre m post. ''ok [TOOL: get_cpu_info]'' = pre @ m @ post \<and> well_formed_marker m ''get_cpu_info'')
   \<and> ''get_cpu_info'' \<notin> set (extract_tool_calls ''ok [tool: get_cpu_info] [TOOL: get_cpu_inf0]'')
   \<and> \<not> (\<exists>pre m post. ''ok [tool: get_cpu_info] [TOOL: get_cpu_inf0]'' = pre @ m @ post
          \<and> well_formed_marker m ''get_cpu_info'')"
proof -
  have a: "''get_cpu_info'' \<in> set (extract_tool_calls ''ok [TOOL: get_cpu_info]'')"
    by (simp add: extract_tool_calls_def match_marker_def is_space_def is_word_def)
  have b: "''get_cpu_info'' \<notin> set (extract_tool_calls ''ok [tool: get_cpu_info] [TOOL: get_cpu_inf0]'')"
    by (simp add: extract_tool_calls_def match_marker_def is_space_def is_word_def)
  from a b show ?thesis
    using scanner_recognizes_exactly_the_marker_grammar [of "''get_cpu_info''" "''ok [TOOL: get_cpu_info]''"]
      scanner_recognizes_exactly_the_marker_grammar [of "''get_cpu_info''" "''ok [tool: get_cpu_info] [TOOL: get_cpu_inf0]''"]
    by blast
qed

text \<open>
  Claim C6. For the text of the specification's example the Scanner returns
  \<open>get_cpu_info\<close>, \<open>get_memory_info\<close>, \<open>get_cpu_info\<close> in that order. In general the
  matches come in left-to-right order of appearance and duplicates are kept: a well-formed
  marker anywhere in a text contributes its name exactly once, after all the names
  extracted from the text before it and before all the names extracted from the text
  behind it.
\<close>

theorem scanner_keeps_order_and_duplicates:
  "extract_tool_calls
      ''... [TOOL: get_cpu_info] ... [TOOL: get_memory_info] ... [TOOL: get_cpu_info] ...''
     = [''get_cpu_info'', ''get_memory_info'', ''get_cpu_info'']
   \<and> (\<forall>pre m name post. well_formed_marker m name \<longrightarrow>
         extract_tool_calls (pre @ m @ post)
           = extract_tool_calls pre @ name # extract_tool_calls post)"
proof
  show "extract_tool_calls
      ''... [TOOL: get_cpu_info] ... [TOOL: get_memory_info] ... [TOOL: get_cpu_info] ...''
     = [''get_cpu_info'', ''get_memory_info'', ''get_cpu_info'']"
    by (simp add: extract_tool_calls_def match_marker_def is_space_def is_word_def)
next
  show "\<forall>pre m name post. well_formed_marker m name \<longrightarrow>
         extract_tool_calls (pre @ m @ post)
           = extract_tool_calls pre @ name # extract_tool_calls post"
    by (simp add: extract_tool_calls_def findall_marker_split)
qed

theorem scanner_keeps_order_and_duplicates_witness:
  "well_formed_marker ''[TOOL:  b2]'' ''b2''
   \<and> extract_tool_calls (''x [TOOL: a] [TOOL: b2] y '' @ ''[TOOL:  b2]'' @ '' z [TOOL: a]'')
       = [''a'', ''b2''] @ ''b2'' # [''a'']"
proof -
  have w: "well_formed_marker ''[TOOL:  b2]'' ''b2''"
    using well_formed_markerI [of "''  ''" "''b2''"] by (simp add: is_space_def is_word_def)
  have "extract_tool_calls ''x [TOOL: a] [TOOL: b2] y '' = [''a'', ''b2'']"
    and "extract_tool_calls '' z [TOOL: a]'' = [''a'']"
    by (simp_all add: extract_tool_calls_def match_marker_def is_space_def is_word_def)
  moreover have "extract_tool_calls (''x [TOOL: a] [TOOL: b2] y '' @ ''[TOOL:  b2]'' @ '' z [TOOL: a]'')
      = extract_tool_calls ''x [TOOL: a] [TOOL: b2] y '' @ ''b2'' # extract_tool_calls '' z [TOOL: a]''"
    by (rule conjunct2 [OF scanner_keeps_order_and_duplicates, THEN spec, THEN spec, THEN spec,
          THEN spec, THEN mp, OF w])
  ultimately show ?thesis
    using w by simp
qed

text \<open>
  Claim C7. For a text that contains no well-formed marker the Scanner returns the empty
  sequence: a marker-like substring that does not fully match the pattern yields no tool
  call (and the Scanner, a total function to lists, yields no error).
\<close>

theorem scanner_ignores_text_without_markers:
  "\<not> contains_marker text \<Longrightarrow> extract_tool_calls text = []"
  by (simp add: extract_tool_calls_def contains_marker_iff)

theorem scanner_ignores_text_without_markers_witness:
  "\<not> contains_marker ''Run [tool: get_cpu_info] or [tOOL: get_cpu_info], please''
   \<and> extract_tool_calls ''Run [tool: get_cpu_info] or [tOOL: get_cpu_info], please'' = []"
proof -
  have "\<not> contains_marker ''Run [tool: get_cpu_info] or [tOOL: get_cpu_info], please''"
    by (rule notI, drule contains_marker_open) simp
  then show ?thesis
    using scanner_ignores_text_without_markers by blast
qed

text \<open>
  Claim C8. Whatever the outcome of \<open>chat\<close>, it makes one or two backend calls. The
  messages of the first are the system turn followed by the history stored at that
  moment: the old history and the new user turn. The messages of the second are the
  system turn followed by the history stored at that moment: the old history, the user
  turn, the assistant turn and the turn of the tool results. The content of the system
  turn is the template with the registry's descriptions in it, one line
  \<^verbatim>\<open>- name: description\<close> per tool in the order of the registry. No turn appended to the
  history is a system turn, and the old history is a prefix of the new one.
\<close>

theorem chat_sends_system_turn_then_history:
  fixes env :: "('w, 'r) env" and st :: "'w session"
  assumes run: "chat env user_message st = (res, st')"
  shows "prefix (history st) (history st')
       \<and> list_all (\<lambda>t. role t \<noteq> System) (drop (length (history st)) (history st'))
       \<and> ((requests st' = requests st
               @ [system_turn env # history st @ [\<lparr>role = User, content = user_message\<rparr>]]
            \<and> (history st' = history st @ [\<lparr>role = User, content = user_message\<rparr>]
                 \<or> (\<exists>reply. history st' = history st
                       @ [\<lparr>role = User, content = user_message\<rparr>,
                          \<lparr>role = Assistant, content = reply\<rparr>])))
          \<or> (\<exists>reply results.
               requests st' = requests st
                 @ [system_turn env # history st @ [\<lparr>role = User, content = user_message\<rparr>],
                    system_turn env # history st
                      @ [\<lparr>role = User, content = user_message\<rparr>,
                         \<lparr>role = Assistant, content = reply\<rparr>,
                         \<lparr>role = User, content = results\<rparr>]]
             \<and> (history st' = history st
                   @ [\<lparr>role = User, content = user_message\<rparr>,
                      \<lparr>role = Assistant, content = reply\<rparr>,
                      \<lparr>role = User, content = results\<rparr>]
                  \<or> (\<exists>reply2. history st' = history st
                        @ [\<lparr>role = User, content = user_message\<rparr>,
                           \<lparr>role = Assistant, content = reply\<rparr>,
                           \<lparr>role = User, content = results\<rparr>,
                           \<lparr>role = Assistant, content = reply2\<rparr>]))))
       \<and> system_turn env =
           \<lparr>role = System,
            content = SYSTEM_PROMPT_head
              @ drop 1 (concat (map (\<lambda>(name, info). ''\<newline>- '' @ name @ '': '' @ description info)
                          (tools env)))
              @ SYSTEM_PROMPT_tail\<rparr>"
proof -
  note cases = chat_cases [OF run]
  have "prefix (history st) (history st')"
    using cases by auto
  moreover have "list_all (\<lambda>t. role t \<noteq> System) (drop (length (history st)) (history st'))"
    using cases by auto
  ultimately show ?thesis
    using cases system_turn_unfold [of env] by (intro conjI)
qed

theorem chat_sends_system_turn_then_history_witness:
  "chat example_env ''status?'' example_session = (Inr ''All good.'', example_final)
   \<and> content (system_turn example_env) =
        ''You are a helpful assistant that runs locally on the user's machine. \<newline>''
        @ ''You have access to tools that can retrieve information about the system you're running on.\<newline>''
        @ ''\<newline>''
        @ ''Available tools:\<newline>''
        @ ''- get_system_info: Get basic system information like OS, hostname, and processor\<newline>''
        @ ''- get_cpu_info: Get CPU usage, core count, and frequency information\<newline>''
        @ ''- get_memory_info: Get RAM and swap memory usage\<newline>''
        @ ''- get_disk_info: Get disk partition and storage usage information\<newline>''
        @ ''- get_network_info: Get network interfaces, IP addresses, and data transfer stats\<newline>''
        @ ''- get_process_info: Get top processes by memory usage\<newline>''
        @ ''- get_battery_info: Get battery status and charge level (for laptops)\<newline>''
        @ ''- get_uptime: Get system boot time and uptime duration''
        @ ''\<newline>''
        @ ''\<newline>''
        @ ''When the user asks about system information, use the appropriate tool by responding with:\<newline>''
        @ ''[TOOL: tool_name]\<newline>''
        @ ''\<newline>''
        @ ''For example:\<newline>''
        @ ''- If asked about CPU usage, respond with [TOOL: get_cpu_info]\<newline>''
        @ ''- If asked about memory/RAM, respond with [TOOL: get_memory_info]\<newline>''
        @ ''- If asked about disk space, respond with [TOOL: get_disk_info]\<newline>''
        @ ''- If asked about network, respond with [TOOL: get_network_info]\<newline>''
        @ ''- If asked about running processes, respond with [TOOL: get_process_info]\<newline>''
        @ ''- If asked about battery, respond with [TOOL: get_battery_info]\<newline>''
        @ ''- If asked about uptime or boot time, respond with [TOOL: get_uptime]\<newline>''
        @ ''- If asked about general system info (OS, hostname), respond with [TOOL: get_system_info]\<newline>''
        @ ''\<newline>''
        @ ''After receiving tool results, explain them to the user in a friendly, clear way.\<newline>''
        @ ''You can use multiple tools if needed to answer complex questions.\<newline>''
   \<and> prefix (history example_session) (history example_final)
   \<and> list_all (\<lambda>t. role t \<noteq> System)
        (drop (length (history example_session)) (history example_final))
   \<and> ((requests example_final = requests example_session
           @ [system_turn example_env # history example_session
                @ [\<lparr>role = User, content = ''status?''\<rparr>]]
        \<and> (history example_final = history example_session
               @ [\<lparr>role = User, content = ''status?''\<rparr>]
             \<or> (\<exists>reply. history example_final = history example_session
                   @ [\<lparr>role = User, content = ''status?''\<rparr>,
                      \<lparr>role = Assistant, content = reply\<rparr>])))
      \<or> (\<exists>reply results.
           requests example_final = requests example_session
             @ [system_turn example_env # history example_session
                  @ [\<lparr>role = User, content = ''status?''\<rparr>],
                system_turn example_env # history example_session
                  @ [\<lparr>role = User, content = ''status?''\<rparr>,
                     \<lparr>role = Assistant, content = reply\<rparr>,
                     \<lparr>role = User, content = results\<rparr>]]
         \<and> (history example_final = history example_session
               @ [\<lparr>role = User, content = ''status?''\<rparr>,
                  \<lparr>role = Assistant, content = reply\<rparr>,
                  \<lparr>role = User, content = results\<rparr>]
              \<or> (\<exists>reply2. history example_final = history example_session
                    @ [\<lparr>role = User, content = ''status?''\<rparr>,
                       \<lparr>role = Assistant, content = reply\<rparr>,
                       \<lparr>role = User, content = results\<rparr>,
                       \<lparr>role = Assistant, content = reply2\<rparr>]))))
   \<and> system_turn example_env =
       \<lparr>role = System,
        content = SYSTEM_PROMPT_head
          @ drop 1 (concat (map (\<lambda>(name, info). ''\<newline>- '' @ name @ '': '' @ description info)
                      (tools example_env)))
          @ SYSTEM_PROMPT_tail\<rparr>"
  by (rule conjI [OF example_chat_run
        conjI [OF example_system_prompt
          chat_sends_system_turn_then_history [OF example_chat_run]]])

text \<open>
  Claim C9. The result of the Scanner is determined by the text alone: every run over a
  text, however it searches for the markers, ends with one and the same result, which is
  the value of \<open>extract_tool_calls\<close> on that text; so two calls on the same text yield
  identical results.
\<close>

theorem scanner_result_determined_by_text:
  "scans text names \<longleftrightarrow> names = extract_tool_calls text"
  unfolding extract_tool_calls_def using scans_findall scans_unique by blast

theorem scanner_result_determined_by_text_witness:
  "scans ''a [TOOL: x] [TOOL: x]'' [''x'', ''x'']
   \<and> [''x'', ''x''] = extract_tool_calls ''a [TOOL: x] [TOOL: x]''"
proof -
  have "[''x'', ''x''] = extract_tool_calls ''a [TOOL: x] [TOOL: x]''"
    by (simp add: extract_tool_calls_def match_marker_def is_space_def is_word_def)
  then show ?thesis
    using scanner_result_determined_by_text [of "''a [TOOL: x] [TOOL: x]''" "[''x'', ''x'']"]
    by simp
qed

text \<open>
  Claim C10. Every name the Scanner returns is non-empty and consists of word characters
  only; none of its characters is whitespace, a bracket or a colon.
\<close>

theorem extracted_names_are_nonempty_words:
  "name \<in> set (extract_tool_calls text) \<Longrightarrow>
     name \<noteq> [] \<and>
     list_all (\<lambda>c. is_word c \<and> \<not> is_space c \<and> c \<noteq> CHR ''['' \<and> c \<noteq> CHR '']'' \<and> c \<noteq> CHR '':'') name"
  unfolding extract_tool_calls_def list_all_iff
  using findall_marker_words word_char by blast

theorem extracted_names_are_nonempty_words_witness:
  "''a1_'' \<in> set (extract_tool_calls ''[TOOL: a1_]'')
   \<and> ''a1_'' \<noteq> []
   \<and> list_all (\<lambda>c. is_word c \<and> \<not> is_space c \<and> c \<noteq> CHR ''['' \<and> c \<noteq> CHR '']'' \<and> c \<noteq> CHR '':'') ''a1_''"
proof -
  have "''a1_'' \<in> set (extract_tool_calls ''[TOOL: a1_]'')"
    by (simp add: extract_tool_calls_def match_marker_def is_space_def is_word_def)
  then show ?thesis
    using extracted_names_are_nonempty_words [of "''a1_''" "''[TOOL: a1_]''"] by simp
qed

end
